theory Spec2Isabelle
  imports Complex_Main
begin

section \<open>Values shared by the breakers\<close>

text \<open>
  Everything the TypeScript code can throw or receive as an \<open>error\<close> argument:
  \<open>undefined\<close>, \<open>null\<close>, an instance of \<open>CircuitBreakerError\<close> (with its message), a plain
  \<open>Error\<close> (with its message), or any other value (a caller's own error class), told apart
  by a number.
\<close>

datatype thrown =
    Undefined
  | Null
  | CircuitBreakerError string
  | Error string
  | Other nat

text \<open>\<open>e instanceof CircuitBreakerError\<close>.\<close>

fun instanceof_CircuitBreakerError :: "thrown \<Rightarrow> bool" where
  "instanceof_CircuitBreakerError (CircuitBreakerError m) = True"
| "instanceof_CircuitBreakerError e = False"

text \<open>
  The system clock. Each evaluation of \<open>new Date()\<close> or \<open>Date.now()\<close> takes the next
  reading; a clock is the sequence of the readings still to come, in milliseconds. Nothing
  is assumed about the readings. Times and intervals are whole numbers of milliseconds; the
  limits of \<open>Date\<close> and of doubles are not modelled.
\<close>

type_synonym clock = "nat \<Rightarrow> int"

definition now :: "clock \<Rightarrow> int \<times> clock" where
  "now clk = (clk 0, \<lambda>i. clk (Suc i))"

text \<open>\<open>new Date('0001-01-01T00:00:00Z').getTime()\<close>, the initial value of every retry time.\<close>

definition year_one :: int where
  "year_one = - 62135596800000"

text \<open>
  A field declared without an initialiser (\<open>private _shouldRetry: boolean;\<close>) holds
  \<open>undefined\<close> until it is assigned: \<open>None\<close> here. \<open>truthy\<close> is what \<open>if\<close>, \<open>!\<close> and
  \<open>&&\<close> make of such a field.
\<close>

fun truthy :: "bool option \<Rightarrow> bool" where
  "truthy None = False"
| "truthy (Some b) = b"

text \<open>
  A numeric counter field declared without an initialiser: \<open>Unset\<close> is \<open>undefined\<close>.
  \<open>undefined++\<close> stores \<open>NaN\<close>, \<open>NaN++\<close> stores \<open>NaN\<close>, and every comparison with
  \<open>NaN\<close> is false.
\<close>

datatype counter = Unset | NaN | Count int

fun increment :: "counter \<Rightarrow> counter" where
  "increment Unset = NaN"
| "increment NaN = NaN"
| "increment (Count k) = Count (k + 1)"

fun counter_le :: "counter \<Rightarrow> int \<Rightarrow> bool" where
  "counter_le (Count k) n = (k \<le> n)"
| "counter_le c n = False"

fun counter_gt :: "counter \<Rightarrow> int \<Rightarrow> bool" where
  "counter_gt (Count k) n = (k > n)"
| "counter_gt c n = False"

section \<open>circuit\_breaker\_base.ts\<close>

text \<open>
  The text JavaScript puts into a template literal for the number \<open>ms / 1000\<close>, where
  \<open>ms\<close> is a whole number of milliseconds: the integer part, and up to three decimals
  without trailing zeros. (This is the shortest decimal that reads back as the same double
  while \<open>ms\<close> has at most fifteen digits.)
\<close>

definition digit_char :: "nat \<Rightarrow> char" where
  "digit_char d = ''0123456789'' ! d"

fun nat_text :: "nat \<Rightarrow> string" where
  "nat_text n = (if n < 10 then [digit_char n] else nat_text (n div 10) @ [digit_char (n mod 10)])"

declare nat_text.simps [simp del]

definition fraction_text :: "nat \<Rightarrow> string" where
  "fraction_text f =
     (if f = 0 then []
      else if f mod 100 = 0 then [CHR ''.'', digit_char (f div 100)]
      else if f mod 10 = 0 then [CHR ''.'', digit_char (f div 100), digit_char (f div 10 mod 10)]
      else [CHR ''.'', digit_char (f div 100), digit_char (f div 10 mod 10), digit_char (f mod 10)])"

definition seconds_text :: "int \<Rightarrow> string" where
  "seconds_text ms =
     (if ms < 0 then ''-'' else []) @ nat_text (nat \<bar>ms\<bar> div 1000) @ fraction_text (nat \<bar>ms\<bar> mod 1000)"

text \<open>
  \<open>CircuitBreakerBase\<close>: the private \<open>_isTripped\<close> and the protected \<open>trippedAt\<close>
  (\<open>None\<close> is \<open>undefined\<close>). Subclasses extend the record. The abstract getter \<open>name\<close> is
  a parameter \<open>nm\<close> of the operations that read it: what evaluating the getter gives, a
  string or a throw.
\<close>

record CircuitBreakerBase =
  isTripped :: bool
  trippedAt :: "int option"

definition CircuitBreakerBase_reset ::
  "'a CircuitBreakerBase_scheme \<Rightarrow> bool \<times> 'a CircuitBreakerBase_scheme" where
  "CircuitBreakerBase_reset b =
     (if \<not> isTripped b then (False, b)
      else (True, b\<lparr>isTripped := False, trippedAt := None\<rparr>))"

definition trip ::
  "clock \<Rightarrow> 'a CircuitBreakerBase_scheme \<Rightarrow> bool \<times> 'a CircuitBreakerBase_scheme \<times> clock" where
  "trip clk b =
     (if isTripped b then (False, b, clk)
      else (let (t, clk') = now clk
            in (True, b\<lparr>isTripped := True, trippedAt := Some t\<rparr>, clk')))"

definition trip_message :: "string \<Rightarrow> int \<Rightarrow> string" where
  "trip_message name ms =
     [CHR 0x27] @ name @ [CHR 0x27] @ '' has been tripped for '' @ seconds_text ms @ '' seconds.''"

definition getTripError ::
  "(thrown + string) \<Rightarrow> clock \<Rightarrow> 'a CircuitBreakerBase_scheme \<Rightarrow> (thrown + thrown) \<times> clock" where
  "getTripError nm clk b =
     (let (n, clk') = now clk;
          elapsed = n - (case trippedAt b of Some t \<Rightarrow> t | None \<Rightarrow> n)
      in case nm of
           Inl e \<Rightarrow> (Inl e, clk')
         | Inr name \<Rightarrow> (Inr (CircuitBreakerError (trip_message name elapsed)), clk'))"

definition test ::
  "(thrown + string) \<Rightarrow> clock \<Rightarrow> 'a CircuitBreakerBase_scheme \<Rightarrow> (thrown + unit) \<times> clock" where
  "test nm clk b =
     (if isTripped b then
        (case getTripError nm clk b of
           (Inl e, clk') \<Rightarrow> (Inl e, clk')
         | (Inr err, clk') \<Rightarrow> (Inl err, clk'))
      else (Inr (), clk))"

section \<open>execution\_circuit\_breaker\_base.ts\<close>

text \<open>
  \<open>ExecutionCircuitBreakerBase\<close> adds \<open>_nextRetry\<close> (as its \<open>getTime()\<close>) and
  \<open>_shouldRetry\<close>, which has no initialiser. Its abstract members are parameters of
  \<open>execute\<close>: \<open>nm\<close> (the getter \<open>name\<close>), \<open>shouldTrip\<close>, which may change the
  breaker, read the clock and throw, and the getter \<open>retryInterval\<close>, which returns a
  number or throws. A getter that calls a supplied function reads the caller's world
  \<open>'w\<close>; the action changes that world and either returns (\<open>None\<close>) or throws
  (\<open>Some e\<close>). The failure detector and the error count and error interval getters of the
  concrete breakers are taken to return normally.
\<close>

text \<open>
  A number as a supplied retry interval calculator returns it: finite, and then taken as a
  real, or one of \<open>NaN\<close>, \<open>Infinity\<close> and \<open>-Infinity\<close>. \<open>plus_time\<close> is
  \<open>now.getTime() + retryInterval\<close>. \<open>new Date(value)\<close> clips the value: a value that is not
  finite or lies more than 8.64e15 ms from the epoch gives an Invalid Date, whose
  \<open>getTime()\<close> is \<open>NaN\<close> (\<open>None\<close> here); any other value is cut to whole milliseconds
  towards zero.
\<close>

datatype number = Not_Finite | Finite real

definition plus_time :: "int \<Rightarrow> number \<Rightarrow> number" where
  "plus_time t v = (case v of Not_Finite \<Rightarrow> Not_Finite | Finite x \<Rightarrow> Finite (real_of_int t + x))"

definition new_Date :: "number \<Rightarrow> int option" where
  "new_Date v =
     (case v of
        Not_Finite \<Rightarrow> None
      | Finite x \<Rightarrow>
          if \<bar>x\<bar> > 8640000000000000 then None
          else Some (if x \<ge> 0 then \<lfloor>x\<rfloor> else \<lceil>x\<rceil>))"

record ExecutionCircuitBreakerBase = CircuitBreakerBase +
  nextRetry :: "int option"
  shouldRetry :: "bool option"

definition isTimeForRetry ::
  "clock \<Rightarrow> 'a ExecutionCircuitBreakerBase_scheme \<Rightarrow> bool \<times> clock" where
  "isTimeForRetry clk s =
     (let (t, clk') = now clk
      in ((case nextRetry s of None \<Rightarrow> False | Some n \<Rightarrow> t \<ge> n), clk'))"

definition attemptToProceed ::
  "(thrown + string) \<Rightarrow> clock \<Rightarrow> 'a ExecutionCircuitBreakerBase_scheme \<Rightarrow> (thrown + unit) \<times> clock" where
  "attemptToProceed nm clk s =
     (case test nm clk s of
        (Inr u, clk1) \<Rightarrow> (Inr (), clk1)
      | (Inl e, clk1) \<Rightarrow>
          if \<not> instanceof_CircuitBreakerError e then (Inl e, clk1)
          else (let (timeForRetry, clk2) = isTimeForRetry clk1 s
                in if \<not> timeForRetry \<or> \<not> truthy (shouldRetry s) then (Inl e, clk2)
                   else (Inr (), clk2)))"

definition reset ::
  "'a ExecutionCircuitBreakerBase_scheme \<Rightarrow> bool \<times> 'a ExecutionCircuitBreakerBase_scheme" where
  "reset s = CircuitBreakerBase_reset (s\<lparr>nextRetry := Some year_one\<rparr>)"

type_synonym ('s, 'w) shouldTrip = "thrown \<Rightarrow> 'w \<Rightarrow> clock \<Rightarrow> 's \<Rightarrow> (thrown + bool) \<times> 's \<times> clock"

text \<open>
  What \<open>execute\<close> does once \<open>_attemptToProceed()\<close> has returned: the guarded call
  of the action, its \<open>catch\<close> and \<open>finally\<close> blocks, and the \<open>reset()\<close> after them.
\<close>

definition run_action ::
  "('a ExecutionCircuitBreakerBase_scheme, 'w) shouldTrip \<Rightarrow>
   ('a ExecutionCircuitBreakerBase_scheme \<Rightarrow> 'w \<Rightarrow> thrown + number) \<Rightarrow>
   ('w \<Rightarrow> thrown option \<times> 'w) \<Rightarrow> clock \<Rightarrow> 'a ExecutionCircuitBreakerBase_scheme \<Rightarrow> 'w \<Rightarrow>
   (thrown + unit) \<times> 'a ExecutionCircuitBreakerBase_scheme \<times> 'w \<times> clock" where
  "run_action shouldTrip retryInterval action clk s w =
     (case action w of
        (Some e, w') \<Rightarrow>
          (case shouldTrip e w' clk s of
             (Inl e2, s1, clk1) \<Rightarrow> (Inl e2, s1\<lparr>shouldRetry := Some True\<rparr>, w', clk1)
           | (Inr False, s1, clk1) \<Rightarrow> (Inl e, s1\<lparr>shouldRetry := Some True\<rparr>, w', clk1)
           | (Inr True, s1, clk1) \<Rightarrow>
               (let (t, clk2) = now clk1
                in case retryInterval s1 w' of
                     Inl e3 \<Rightarrow> (Inl e3, s1\<lparr>shouldRetry := Some True\<rparr>, w', clk2)
                   | Inr interval \<Rightarrow>
                       (let s2 = s1\<lparr>nextRetry := new_Date (plus_time t interval)\<rparr>;
                            (tripped, s3, clk3) = trip clk2 s2
                        in (Inl e, s3\<lparr>shouldRetry := Some True\<rparr>, w', clk3))))
      | (None, w') \<Rightarrow>
          (let s1 = s\<lparr>shouldRetry := Some True\<rparr>;
               (was_reset, s2) = reset s1
           in (Inr (), s2, w', clk)))"

definition execute ::
  "(thrown + string) \<Rightarrow> ('a ExecutionCircuitBreakerBase_scheme, 'w) shouldTrip \<Rightarrow>
   ('a ExecutionCircuitBreakerBase_scheme \<Rightarrow> 'w \<Rightarrow> thrown + number) \<Rightarrow>
   ('w \<Rightarrow> thrown option \<times> 'w) \<Rightarrow> clock \<Rightarrow> 'a ExecutionCircuitBreakerBase_scheme \<Rightarrow> 'w \<Rightarrow>
   (thrown + unit) \<times> 'a ExecutionCircuitBreakerBase_scheme \<times> 'w \<times> clock" where
  "execute nm shouldTrip retryInterval action clk s w =
     (case attemptToProceed nm clk s of
        (Inl e, clk1) \<Rightarrow> (Inl e, s, w, clk1)
      | (Inr u, clk1) \<Rightarrow> run_action shouldTrip retryInterval action clk1 s w)"

text \<open>
  \<open>executeAsync\<close> has the body of \<open>execute\<close> with the action awaited: a rejected promise
  is the throw, and the promise it returns rejects where \<open>execute\<close> throws. One caller at
  a time is modelled.
\<close>

definition executeAsync ::
  "(thrown + string) \<Rightarrow> ('a ExecutionCircuitBreakerBase_scheme, 'w) shouldTrip \<Rightarrow>
   ('a ExecutionCircuitBreakerBase_scheme \<Rightarrow> 'w \<Rightarrow> thrown + number) \<Rightarrow>
   ('w \<Rightarrow> thrown option \<times> 'w) \<Rightarrow> clock \<Rightarrow> 'a ExecutionCircuitBreakerBase_scheme \<Rightarrow> 'w \<Rightarrow>
   (thrown + unit) \<times> 'a ExecutionCircuitBreakerBase_scheme \<times> 'w \<times> clock" where
  "executeAsync nm shouldTrip retryInterval action clk s w =
     (case attemptToProceed nm clk s of
        (Inl e, clk1) \<Rightarrow> (Inl e, s, w, clk1)
      | (Inr u, clk1) \<Rightarrow> run_action shouldTrip retryInterval action clk1 s w)"

section \<open>execution\_circuit\_breaker.ts\<close>

record 'w ExecutionCircuitBreaker = ExecutionCircuitBreakerBase +
  ecb_name :: string
  ecb_failureDetector :: "thrown \<Rightarrow> bool"
  ecb_retryIntervalCalculator :: "'w \<Rightarrow> thrown + number"

definition new_ExecutionCircuitBreaker ::
  "string option \<Rightarrow> (thrown \<Rightarrow> bool) option \<Rightarrow> ('w \<Rightarrow> thrown + number) option \<Rightarrow>
   thrown + 'w ExecutionCircuitBreaker" where
  "new_ExecutionCircuitBreaker name failureDetector retryIntervalCalculator =
     (if name = None \<or> name = Some [] then Inl (Error ''The name parameter is required.'')
      else if failureDetector = None then Inl (Error ''The failureDetector parameter is required.'')
      else if retryIntervalCalculator = None then
        Inl (Error ''The retryIntervalCalculator parameter is required.'')
      else Inr \<lparr>isTripped = False, trippedAt = None, nextRetry = Some year_one, shouldRetry = None,
                ecb_name = the name, ecb_failureDetector = the failureDetector,
                ecb_retryIntervalCalculator = the retryIntervalCalculator\<rparr>)"

definition ExecutionCircuitBreaker_shouldTrip ::
  "('w ExecutionCircuitBreaker, 'w) shouldTrip" where
  "ExecutionCircuitBreaker_shouldTrip error w clk s = (Inr (ecb_failureDetector s error), s, clk)"

definition ExecutionCircuitBreaker_retryInterval ::
  "'w ExecutionCircuitBreaker \<Rightarrow> 'w \<Rightarrow> thrown + number" where
  "ExecutionCircuitBreaker_retryInterval s w = ecb_retryIntervalCalculator s w"

section \<open>threshold\_execution\_circuit\_breaker.ts\<close>

text \<open>\<open>_errorCount\<close> has no initialiser; \<open>_errorCountIntervalEnd\<close> starts at year one.\<close>

record 'w ThresholdExecutionCircuitBreaker = ExecutionCircuitBreakerBase +
  tecb_name :: string
  failureDetector :: "thrown \<Rightarrow> bool"
  retryIntervalCalculator :: "'w \<Rightarrow> thrown + number"
  errorCountGetter :: "'w \<Rightarrow> int"
  errorIntervalGetter :: "'w \<Rightarrow> int"
  errorCountIntervalEnd :: int
  errorCount :: counter

definition new_ThresholdExecutionCircuitBreaker ::
  "string option \<Rightarrow> (thrown \<Rightarrow> bool) option \<Rightarrow> ('w \<Rightarrow> thrown + number) option \<Rightarrow>
   ('w \<Rightarrow> int) option \<Rightarrow> ('w \<Rightarrow> int) option \<Rightarrow> thrown + 'w ThresholdExecutionCircuitBreaker" where
  "new_ThresholdExecutionCircuitBreaker name fd ric ecg eig =
     (if name = None \<or> name = Some [] then Inl (Error ''name cannot be null, undefined or empty.'')
      else if fd = None then Inl (Error ''failureDetector cannot be null or undefined.'')
      else if ric = None then Inl (Error ''retryIntervalCalculator cannot be null or undefined.'')
      else if ecg = None then Inl (Error ''errorCountGetter cannot be null or undefined.'')
      else if eig = None then Inl (Error ''errorIntervalGetter cannot be null or undefined.'')
      else Inr \<lparr>isTripped = False, trippedAt = None, nextRetry = Some year_one, shouldRetry = None,
                tecb_name = the name, failureDetector = the fd, retryIntervalCalculator = the ric,
                errorCountGetter = the ecg, errorIntervalGetter = the eig,
                errorCountIntervalEnd = year_one, errorCount = Unset\<rparr>)"

definition resetErrorCount ::
  "'w \<Rightarrow> clock \<Rightarrow> 'w ThresholdExecutionCircuitBreaker \<Rightarrow> 'w ThresholdExecutionCircuitBreaker \<times> clock" where
  "resetErrorCount w clk s =
     (let s1 = s\<lparr>errorCount := Count 0\<rparr>;
          (t, clk') = now clk
      in (s1\<lparr>errorCountIntervalEnd := t + errorIntervalGetter s1 w\<rparr>, clk'))"

definition ThresholdExecutionCircuitBreaker_shouldTrip ::
  "('w ThresholdExecutionCircuitBreaker, 'w) shouldTrip" where
  "ThresholdExecutionCircuitBreaker_shouldTrip error w clk s =
     (if error = Undefined \<or> error = Null then
        (Inl (Error ''error cannot be null or undefined.''), s, clk)
      else if failureDetector s error then
        (let (t, clk1) = now clk;
             (s1, clk2) = (if t > errorCountIntervalEnd s then resetErrorCount w clk1 s else (s, clk1));
             s2 = s1\<lparr>errorCount := increment (errorCount s1)\<rparr>
         in if counter_gt (errorCount s2) (errorCountGetter s2 w) then (Inr True, s2, clk2)
            else (Inr False, s2, clk2))
      else (Inr False, s, clk))"

definition ThresholdExecutionCircuitBreaker_retryInterval ::
  "'w ThresholdExecutionCircuitBreaker \<Rightarrow> 'w \<Rightarrow> thrown + number" where
  "ThresholdExecutionCircuitBreaker_retryInterval s w = retryIntervalCalculator s w"

section \<open>circuit\_breaker.ts\<close>

record CircuitBreaker = CircuitBreakerBase +
  cb_name :: string

definition new_CircuitBreaker :: "string \<Rightarrow> CircuitBreaker" where
  "new_CircuitBreaker name = \<lparr>isTripped = False, trippedAt = None, cb_name = name\<rparr>"

section \<open>default\_circuit\_breaker\_policy\_config.ts\<close>

text \<open>What the getters of an \<open>IDefaultCircuitBreakerPolicyConfig\<close> return.\<close>

record DefaultCircuitBreakerPolicyConfig =
  retryInterval :: int
  failuresAllowedBeforeTrip :: int

definition new_DefaultCircuitBreakerPolicyConfig :: DefaultCircuitBreakerPolicyConfig where
  "new_DefaultCircuitBreakerPolicyConfig = \<lparr>retryInterval = 250, failuresAllowedBeforeTrip = 0\<rparr>"

definition set_failuresAllowedBeforeTrip ::
  "int \<Rightarrow> DefaultCircuitBreakerPolicyConfig \<Rightarrow> thrown + DefaultCircuitBreakerPolicyConfig" where
  "set_failuresAllowedBeforeTrip v c =
     (if v < 0 then Inl (Error ''Failures allowed before trip is out of range.'')
      else Inr (c\<lparr>failuresAllowedBeforeTrip := v\<rparr>))"

section \<open>circuit\_breaker\_policy\_base.ts and default\_circuit\_breaker\_policy.ts\<close>

text \<open>
  The policy object: the fields of \<open>CircuitBreakerPolicyBase\<close> (the trip reason authority,
  as its \<open>isReasonForTrip\<close>, and the two optional callbacks, which act on the caller's
  world) and those of \<open>DefaultCircuitBreakerPolicy\<close>. \<open>_shouldRetry\<close> and
  \<open>_consecutiveFailures\<close> have no initialiser and the constructor does not assign them.
  The authority and the callbacks are taken to return normally.
\<close>

record ('ctx, 'w) DefaultCircuitBreakerPolicy =
  tripReasonAuthority :: "'ctx \<Rightarrow> thrown \<Rightarrow> bool"
  onTerminatingRequest :: "('w \<Rightarrow> 'w) option"
  onRequestToOpen :: "('w \<Rightarrow> 'w) option"
  circuitBreaker :: CircuitBreaker
  policy_shouldRetry :: "bool option"
  consecutiveFailures :: counter
  policy_nextRetry :: int
  config :: DefaultCircuitBreakerPolicyConfig

definition new_DefaultCircuitBreakerPolicy ::
  "string option \<Rightarrow> DefaultCircuitBreakerPolicyConfig option \<Rightarrow> ('ctx \<Rightarrow> thrown \<Rightarrow> bool) option \<Rightarrow>
   thrown + ('ctx, 'w) DefaultCircuitBreakerPolicy" where
  "new_DefaultCircuitBreakerPolicy circuitBreakerIdentifier cfg authority =
     (if authority = None then Inl (Error ''The trip reason authority cannot be null or undefined.'')
      else if circuitBreakerIdentifier = None \<or> circuitBreakerIdentifier = Some [] then
        Inl (Error ''The circuit breaker identifier cannot be null or undefined.'')
      else if cfg = None then
        Inl (Error ''The circuit breaker policy configuration cannot be null or undefined.'')
      else if failuresAllowedBeforeTrip (the cfg) < 0 then
        Inl (Error ''The number of failures allowed before trip cannot be less than zero.'')
      else Inr \<lparr>tripReasonAuthority = the authority, onTerminatingRequest = None,
                onRequestToOpen = None,
                circuitBreaker = new_CircuitBreaker (the circuitBreakerIdentifier),
                policy_shouldRetry = None, consecutiveFailures = Unset,
                policy_nextRetry = year_one, config = the cfg\<rparr>)"

definition isCircuitBreakerOpen ::
  "'ctx \<Rightarrow> clock \<Rightarrow> ('ctx, 'w) DefaultCircuitBreakerPolicy \<Rightarrow>
   (thrown + bool \<times> thrown option) \<times> clock" where
  "isCircuitBreakerOpen executionContext clk p =
     (if \<not> isTripped (circuitBreaker p) then (Inr (False, None), clk)
      else (let (t, clk1) = now clk
            in if policy_nextRetry p \<le> t \<and> \<not> truthy (policy_shouldRetry p)
               then (Inr (False, None), clk1)
               else (case getTripError (Inr (cb_name (circuitBreaker p))) clk1 (circuitBreaker p) of
                       (Inl e, clk2) \<Rightarrow> (Inl e, clk2)
                     | (Inr err, clk2) \<Rightarrow> (Inr (True, Some err), clk2))))"

definition onSuccessfulRequest ::
  "'ctx \<Rightarrow> ('ctx, 'w) DefaultCircuitBreakerPolicy \<Rightarrow> ('ctx, 'w) DefaultCircuitBreakerPolicy" where
  "onSuccessfulRequest executionContext p =
     (let p1 = p\<lparr>consecutiveFailures := Count 0\<rparr>
      in p1\<lparr>circuitBreaker := snd (CircuitBreakerBase_reset (circuitBreaker p1))\<rparr>)"

definition onNotified ::
  "'ctx \<Rightarrow> ('ctx, 'w) DefaultCircuitBreakerPolicy \<Rightarrow> ('ctx, 'w) DefaultCircuitBreakerPolicy" where
  "onNotified executionContext p = p\<lparr>policy_shouldRetry := Some False\<rparr>"

definition tryToTripCircuitBreaker ::
  "'ctx \<Rightarrow> clock \<Rightarrow> ('ctx, 'w) DefaultCircuitBreakerPolicy \<Rightarrow>
   bool \<times> ('ctx, 'w) DefaultCircuitBreakerPolicy \<times> clock" where
  "tryToTripCircuitBreaker executionContext clk p =
     (let p1 = p\<lparr>consecutiveFailures := increment (consecutiveFailures p)\<rparr>
      in if counter_le (consecutiveFailures p1) (failuresAllowedBeforeTrip (config p1))
         then (False, p1, clk)
         else (let (t, clk1) = now clk;
                   p2 = p1\<lparr>policy_nextRetry := t + retryInterval (config p1)\<rparr>;
                   (tripped, cb, clk2) = trip clk1 (circuitBreaker p2)
               in (True, p2\<lparr>circuitBreaker := cb\<rparr>, clk2)))"

definition invoke :: "('w \<Rightarrow> 'w) option \<Rightarrow> 'w \<Rightarrow> 'w" where
  "invoke callback w = (case callback of None \<Rightarrow> w | Some f \<Rightarrow> f w)"

definition notifyRequestFinished ::
  "'ctx \<Rightarrow> thrown \<Rightarrow> clock \<Rightarrow> ('ctx, 'w) DefaultCircuitBreakerPolicy \<Rightarrow> 'w \<Rightarrow>
   ('ctx, 'w) DefaultCircuitBreakerPolicy \<times> 'w \<times> clock" where
  "notifyRequestFinished executionContext error clk p w =
     (if tripReasonAuthority p executionContext error then
        (let w1 = invoke (onRequestToOpen p) w;
             (tripped, p1, clk1) = tryToTripCircuitBreaker executionContext clk p
         in (onNotified executionContext p1, w1, clk1))
      else (onNotified executionContext (onSuccessfulRequest executionContext p), w, clk))"

definition throwIfTripped ::
  "'ctx \<Rightarrow> clock \<Rightarrow> ('ctx, 'w) DefaultCircuitBreakerPolicy \<Rightarrow> 'w \<Rightarrow> (thrown + unit) \<times> 'w \<times> clock" where
  "throwIfTripped executionContext clk p w =
     (case isCircuitBreakerOpen executionContext clk p of
        (Inl e, clk1) \<Rightarrow> (Inl e, w, clk1)
      | (Inr (isOpen, ex), clk1) \<Rightarrow>
          if \<not> isOpen then (Inr (), w, clk1)
          else (Inl (case ex of None \<Rightarrow> Undefined | Some err \<Rightarrow> err),
                invoke (onTerminatingRequest p) w, clk1))"

section \<open>jitter.ts and exponential\_backoff.ts\<close>

text \<open>
  JavaScript numbers are taken as real numbers: rounding, \<open>NaN\<close> and the infinities are
  not modelled. \<open>Math.random()\<close> takes the next value of a random source, as the clock
  does; \<open>Math.pow(2, x)\<close> is \<open>2 powr x\<close>.
\<close>

datatype Jitter = Jitter_None | Jitter_Full | Jitter_Equal

definition ceilingForMaxAttempts :: real where
  "ceilingForMaxAttempts = 10"

type_synonym random_source = "nat \<Rightarrow> real"

definition random :: "random_source \<Rightarrow> real \<times> random_source" where
  "random rnd = (rnd 0, \<lambda>i. rnd (Suc i))"

definition calculateBackoff ::
  "real \<Rightarrow> real \<Rightarrow> real \<Rightarrow> real \<Rightarrow> Jitter \<Rightarrow> random_source \<Rightarrow> (thrown + real) \<times> random_source" where
  "calculateBackoff attempt maxAttempts baseDelay maxDelay jitter rnd =
     (if maxAttempts < 0 \<or> maxAttempts > ceilingForMaxAttempts then
        (Inl (Error ''The max attempts must be between 0 and 10.''), rnd)
      else (let attempt1 = (if attempt > maxAttempts then maxAttempts else attempt);
                delay = min (baseDelay * 2 powr (attempt1 - 1)) maxDelay;
                (nextRandomValue, rnd1) = random rnd
            in case jitter of
                 Jitter_Full \<Rightarrow> (Inr (delay * nextRandomValue), rnd1)
               | Jitter_Equal \<Rightarrow> (Inr (delay * (0.5 + nextRandomValue * 0.5)), rnd1)
               | Jitter_None \<Rightarrow> (Inr delay, rnd1)))"

section \<open>The breaker state\<close>

text \<open>
  C8. \<open>trip()\<close> sets \<open>tripped = true\<close> and \<open>trippedAt = now\<close> only if the breaker is
  not already tripped and returns true iff it made that transition, so a second \<open>trip()\<close>
  returns false and leaves the state (with \<open>trippedAt\<close>) as it is, still tripped.
  \<open>reset()\<close> clears \<open>tripped\<close> and \<open>trippedAt\<close> only if the breaker is tripped and
  returns true iff it made that transition, so on an untripped breaker it returns false and
  changes nothing.
\<close>

theorem trip_reset_idempotent:
  fixes b :: "'a CircuitBreakerBase_scheme"
  shows "trip clk b =
           (if isTripped b then (False, b, clk)
            else (True, b\<lparr>isTripped := True, trippedAt := Some (clk 0)\<rparr>, snd (now clk)))
       \<and> fst (trip clk b) = (\<not> isTripped b)
       \<and> isTripped (fst (snd (trip clk b)))
       \<and> trip clk2 (fst (snd (trip clk b))) = (False, fst (snd (trip clk b)), clk2)
       \<and> CircuitBreakerBase_reset b =
           (if isTripped b then (True, b\<lparr>isTripped := False, trippedAt := None\<rparr>) else (False, b))
       \<and> fst (CircuitBreakerBase_reset b) = isTripped b
       \<and> \<not> isTripped (snd (CircuitBreakerBase_reset b))
       \<and> CircuitBreakerBase_reset (snd (CircuitBreakerBase_reset b)) =
           (False, snd (CircuitBreakerBase_reset b))"
  by (simp add: trip_def CircuitBreakerBase_reset_def now_def)

theorem trip_reset_idempotent_witness:
  "trip (\<lambda>i. 1000 + int i) \<lparr>isTripped = False, trippedAt = None\<rparr> =
     (True, \<lparr>isTripped = True, trippedAt = Some 1000\<rparr>, snd (now (\<lambda>i. 1000 + int i)))
   \<and> trip (\<lambda>i. 5000) \<lparr>isTripped = True, trippedAt = Some 1000\<rparr> =
     (False, \<lparr>isTripped = True, trippedAt = Some 1000\<rparr>, \<lambda>i. 5000)
   \<and> CircuitBreakerBase_reset \<lparr>isTripped = True, trippedAt = Some 1000\<rparr> =
     (True, \<lparr>isTripped = False, trippedAt = None\<rparr>)
   \<and> CircuitBreakerBase_reset \<lparr>isTripped = False, trippedAt = None\<rparr> =
     (False, \<lparr>isTripped = False, trippedAt = None\<rparr>)"
  using trip_reset_idempotent [of "\<lambda>i. 1000 + int i" "\<lparr>isTripped = False, trippedAt = None\<rparr>" "\<lambda>i. 5000"]
        trip_reset_idempotent [of "\<lambda>i. 5000" "\<lparr>isTripped = True, trippedAt = Some 1000\<rparr>" "\<lambda>i. 5000"]
  by simp

text \<open>
  C10. \<open>getTripError()\<close> on a breaker whose \<open>trippedAt\<close> is absent puts the current time
  in its place, so the message reports exactly 0 seconds:
  \<open>'<name>' has been tripped for 0 seconds.\<close>
\<close>

theorem getTripError_untripped_zero_seconds:
  fixes b :: "'a CircuitBreakerBase_scheme"
  assumes "trippedAt b = None"
  shows "fst (getTripError (Inr name) clk b) =
           Inr (CircuitBreakerError ([CHR 0x27] @ name @ [CHR 0x27] @ '' has been tripped for 0 seconds.''))"
  using assms
  by (simp add: getTripError_def now_def trip_message_def seconds_text_def fraction_text_def
        nat_text.simps [of 0] digit_char_def)

theorem getTripError_untripped_zero_seconds_witness:
  "trippedAt \<lparr>isTripped = False, trippedAt = None\<rparr> = None
   \<and> fst (getTripError (Inr ''db'') (\<lambda>i. 1700000000000) \<lparr>isTripped = False, trippedAt = None\<rparr>) =
     Inr (CircuitBreakerError [CHR 0x27, CHR ''d'', CHR ''b'', CHR 0x27, CHR '' '', CHR ''h'', CHR ''a'', CHR ''s'',
            CHR '' '', CHR ''b'', CHR ''e'', CHR ''e'', CHR ''n'', CHR '' '', CHR ''t'', CHR ''r'', CHR ''i'',
            CHR ''p'', CHR ''p'', CHR ''e'', CHR ''d'', CHR '' '', CHR ''f'', CHR ''o'', CHR ''r'', CHR '' '',
            CHR ''0'', CHR '' '', CHR ''s'', CHR ''e'', CHR ''c'', CHR ''o'', CHR ''n'', CHR ''d'', CHR ''s'',
            CHR ''.''])"
  using getTripError_untripped_zero_seconds
          [of "\<lparr>isTripped = False, trippedAt = None\<rparr>" "''db''" "\<lambda>i. 1700000000000"]
  by simp

section \<open>The execution wrapper\<close>

lemma test_tripped:
  fixes s :: "'a CircuitBreakerBase_scheme"
  assumes "isTripped s"
  shows "test nm clk s =
           (Inl (case nm of Inl e \<Rightarrow> e
                 | Inr name \<Rightarrow> CircuitBreakerError (trip_message name
                     (clk 0 - (case trippedAt s of Some t \<Rightarrow> t | None \<Rightarrow> clk 0)))),
            \<lambda>i. clk (Suc i))"
  using assms by (simp add: test_def getTripError_def now_def split: sum.splits)

lemma test_untripped:
  fixes s :: "'a CircuitBreakerBase_scheme"
  assumes "\<not> isTripped s"
  shows "test nm clk s = (Inr (), clk)"
  using assms by (simp add: test_def)

lemma run_action_world:
  "fst (snd (snd (run_action st ri action clk s w))) = snd (action w)"
  by (simp add: run_action_def Let_def split: prod.splits option.splits sum.splits bool.splits)

lemma executeAsync_execute:
  "executeAsync nm st ri action clk s w = execute nm st ri action clk s w"
  by (simp add: executeAsync_def execute_def)

lemma reset_eq:
  fixes s :: "'a ExecutionCircuitBreakerBase_scheme"
  shows "reset s =
           (isTripped s,
            s\<lparr>nextRetry := Some year_one, isTripped := False,
              trippedAt := (if isTripped s then None else trippedAt s)\<rparr>)"
  by (simp add: reset_def CircuitBreakerBase_reset_def)

lemma nat_text_digit: "n < 10 \<Longrightarrow> nat_text n = [digit_char n]"
  by (simp add: nat_text.simps)

lemma seconds_text_1000: "seconds_text 1000 = ''1''"
  by (simp add: seconds_text_def fraction_text_def nat_text_digit digit_char_def)

lemma seconds_text_100: "seconds_text 100 = ''0.1''"
  by (simp add: seconds_text_def fraction_text_def nat_text_digit digit_char_def)

text \<open>
  C3. While the breaker is tripped, \<open>test()\<close> raises; \<open>execute\<close> and \<open>executeAsync\<close>
  raise that trip error and leave the breaker and the caller's world as they were (the action
  does not run), except when the clock reading taken by \<open>_isTimeForRetry\<close> is at or after
  \<open>nextRetry\<close> and \<open>_shouldRetry\<close> is true: then the error is swallowed and the action
  runs. (No reading is at or after an Invalid Date.) What \<open>test()\<close> raises that is not a
  \<open>CircuitBreakerError\<close> (a throwing \<open>name\<close> getter) is raised unchanged whatever the
  retry time and the flag are.
\<close>

theorem attemptToProceed_when_tripped:
  fixes s :: "'a ExecutionCircuitBreakerBase_scheme"
  assumes "isTripped s"
  shows "(let raised = (case nm of Inl e \<Rightarrow> e
                        | Inr name \<Rightarrow> CircuitBreakerError (trip_message name
                            (clk 0 - (case trippedAt s of Some t \<Rightarrow> t | None \<Rightarrow> clk 0))))
          in test nm clk s = (Inl raised, \<lambda>i. clk (Suc i))
           \<and> execute nm st ri action clk s w =
               (if \<not> instanceof_CircuitBreakerError raised then (Inl raised, s, w, \<lambda>i. clk (Suc i))
                else if (case nextRetry s of None \<Rightarrow> False | Some n \<Rightarrow> clk (Suc 0) \<ge> n)
                        \<and> truthy (shouldRetry s)
                then run_action st ri action (\<lambda>i. clk (Suc (Suc i))) s w
                else (Inl raised, s, w, \<lambda>i. clk (Suc (Suc i)))))
       \<and> executeAsync nm st ri action clk s w = execute nm st ri action clk s w
       \<and> fst (snd (snd (run_action st ri action clk' s w))) = snd (action w)"
  using assms
  by (simp add: execute_def attemptToProceed_def test_tripped isTimeForRetry_def now_def
        executeAsync_execute run_action_world Let_def split: sum.splits)

theorem attemptToProceed_when_tripped_witness:
  "isTripped \<lparr>isTripped = True, trippedAt = Some 1000, nextRetry = Some 6000, shouldRetry = Some True\<rparr>
   \<and> execute (Inr ''Test'') (\<lambda>e w clk s. (Inr True, s, clk)) (\<lambda>s w. Inr (Finite 5000)) (\<lambda>w::nat. (None, Suc w))
       (\<lambda>i. 2000) \<lparr>isTripped = True, trippedAt = Some 1000, nextRetry = Some 6000, shouldRetry = Some True\<rparr> 0 =
     (Inl (CircuitBreakerError ([CHR 0x27] @ ''Test'' @ [CHR 0x27] @ '' has been tripped for 1 seconds.'')),
      \<lparr>isTripped = True, trippedAt = Some 1000, nextRetry = Some 6000, shouldRetry = Some True\<rparr>, 0, \<lambda>i. 2000)
   \<and> execute (Inr ''Test'') (\<lambda>e w clk s. (Inr True, s, clk)) (\<lambda>s w. Inr (Finite 5000)) (\<lambda>w::nat. (None, Suc w))
       (\<lambda>i. 7000) \<lparr>isTripped = True, trippedAt = Some 1000, nextRetry = Some 6000, shouldRetry = Some True\<rparr> 0 =
     (Inr (), \<lparr>isTripped = False, trippedAt = None, nextRetry = Some year_one, shouldRetry = Some True\<rparr>,
      Suc 0, \<lambda>i. 7000)
   \<and> execute (Inl (Other 7)) (\<lambda>e w clk s. (Inr True, s, clk)) (\<lambda>s w. Inr (Finite 5000)) (\<lambda>w::nat. (None, Suc w))
       (\<lambda>i. 7000) \<lparr>isTripped = True, trippedAt = Some 1000, nextRetry = Some 6000, shouldRetry = Some True\<rparr> 0 =
     (Inl (Other 7),
      \<lparr>isTripped = True, trippedAt = Some 1000, nextRetry = Some 6000, shouldRetry = Some True\<rparr>, 0, \<lambda>i. 7000)"
  using attemptToProceed_when_tripped [where s = "\<lparr>isTripped = True, trippedAt = Some 1000, nextRetry = Some 6000, shouldRetry = Some True\<rparr>"
          and nm = "Inr ''Test''" and clk = "\<lambda>i. 2000" and st = "\<lambda>e w clk s. (Inr True, s, clk)"
          and ri = "\<lambda>s w. Inr (Finite 5000)" and action = "\<lambda>w::nat. (None, Suc w)" and w = 0]
        attemptToProceed_when_tripped [where s = "\<lparr>isTripped = True, trippedAt = Some 1000, nextRetry = Some 6000, shouldRetry = Some True\<rparr>"
          and nm = "Inr ''Test''" and clk = "\<lambda>i. 7000" and st = "\<lambda>e w clk s. (Inr True, s, clk)"
          and ri = "\<lambda>s w. Inr (Finite 5000)" and action = "\<lambda>w::nat. (None, Suc w)" and w = 0]
        attemptToProceed_when_tripped [where s = "\<lparr>isTripped = True, trippedAt = Some 1000, nextRetry = Some 6000, shouldRetry = Some True\<rparr>"
          and nm = "Inl (Other 7)" and clk = "\<lambda>i. 7000" and st = "\<lambda>e w clk s. (Inr True, s, clk)"
          and ri = "\<lambda>s w. Inr (Finite 5000)" and action = "\<lambda>w::nat. (None, Suc w)" and w = 0]
  by (simp add: Let_def trip_message_def seconds_text_1000 run_action_def reset_eq)

lemma new_Date_whole:
  assumes "\<bar>t + k\<bar> \<le> 8640000000000000"
  shows "new_Date (plus_time t (Finite (real_of_int k))) = Some (t + k)"
proof -
  have sum: "real_of_int t + real_of_int k = real_of_int (t + k)"
    by simp
  have bound: "\<not> \<bar>real_of_int (t + k)\<bar> > 8640000000000000"
    using assms by linarith
  show ?thesis
    unfolding plus_time_def new_Date_def number.case sum
    using bound by (simp del: of_int_add)
qed

text \<open>
  C4, as the code has it. When \<open>_attemptToProceed()\<close> returns, the action throws \<open>e\<close> and
  \<open>shouldTrip\<close> returns: if it returned false, \<open>execute\<close> and \<open>executeAsync\<close> throw
  \<open>e\<close> itself and only \<open>_shouldRetry\<close> changes. If it returned true and the
  \<open>retryInterval\<close> getter returns, \<open>nextRetry\<close> becomes
  \<open>new Date(now + retryInterval)\<close>, the breaker is tripped, and \<open>e\<close> itself is thrown;
  for a whole interval with the sum in the range of \<open>Date\<close> that date is the clock reading
  plus the interval. If the getter throws, its error is thrown in place of \<open>e\<close> and the
  breaker is left as \<open>shouldTrip\<close> left it, \<open>_shouldRetry\<close> apart.
\<close>

theorem action_error_rethrown:
  fixes s :: "'a ExecutionCircuitBreakerBase_scheme"
  assumes "attemptToProceed nm clk s = (Inr (), clka)"
      and "action w = (Some e, w')"
      and "st e w' clka s = (Inr b, sa, clkb)"
  shows "(let r = fst (execute nm st ri action clk s w);
              s' = fst (snd (execute nm st ri action clk s w))
          in if \<not> b then r = Inl e \<and> s' = sa\<lparr>shouldRetry := Some True\<rparr>
             else (case ri sa w' of
                     Inl e3 \<Rightarrow> r = Inl e3 \<and> s' = sa\<lparr>shouldRetry := Some True\<rparr>
                   | Inr v \<Rightarrow>
                       r = Inl e \<and> nextRetry s' = new_Date (plus_time (clkb 0) v) \<and> isTripped s'
                       \<and> s' = (fst (snd (trip (\<lambda>i. clkb (Suc i))
                                  (sa\<lparr>nextRetry := new_Date (plus_time (clkb 0) v)\<rparr>))))
                              \<lparr>shouldRetry := Some True\<rparr>))
       \<and> (\<bar>clkb 0 + k\<bar> \<le> 8640000000000000 \<longrightarrow>
            new_Date (plus_time (clkb 0) (Finite (real_of_int k))) = Some (clkb 0 + k))
       \<and> executeAsync nm st ri action clk s w = execute nm st ri action clk s w"
  using assms
  by (simp add: execute_def run_action_def Let_def now_def trip_def executeAsync_execute
        new_Date_whole split: prod.splits sum.splits)

theorem action_error_rethrown_witness:
  "attemptToProceed (Inr ''Test'') (\<lambda>i. 1000 + int i)
       \<lparr>isTripped = False, trippedAt = None, nextRetry = Some year_one, shouldRetry = None\<rparr> =
     (Inr (), \<lambda>i. 1000 + int i)
   \<and> execute (Inr ''Test'') (\<lambda>e w clk s. (Inr (e = Other 1), s, clk)) (\<lambda>s w. Inr (Finite 5000))
       (\<lambda>w::nat. (Some (Other 1), Suc w)) (\<lambda>i. 1000 + int i)
       \<lparr>isTripped = False, trippedAt = None, nextRetry = Some year_one, shouldRetry = None\<rparr> 0 =
     (Inl (Other 1),
      \<lparr>isTripped = True, trippedAt = Some 1001, nextRetry = Some 6000, shouldRetry = Some True\<rparr>,
      Suc 0, \<lambda>i. 1000 + int (Suc (Suc i)))
   \<and> fst (execute (Inr ''Test'') (\<lambda>e w clk s. (Inr (e = Other 1), s, clk)) (\<lambda>s w. Inr (Finite 5000))
       (\<lambda>w::nat. (Some (Other 2), Suc w)) (\<lambda>i. 1000 + int i)
       \<lparr>isTripped = False, trippedAt = None, nextRetry = Some year_one, shouldRetry = None\<rparr> 0) =
     Inl (Other 2)
   \<and> fst (execute (Inr ''Test'') (\<lambda>e w clk s. (Inr (e = Other 1), s, clk))
       (\<lambda>s w. Inl (Error ''calc failed''))
       (\<lambda>w::nat. (Some (Other 1), Suc w)) (\<lambda>i. 1000 + int i)
       \<lparr>isTripped = False, trippedAt = None, nextRetry = Some year_one, shouldRetry = None\<rparr> 0) =
     Inl (Error ''calc failed'')"
proof -
  let ?s = "\<lparr>isTripped = False, trippedAt = None, nextRetry = Some year_one, shouldRetry = None\<rparr>"
  let ?clk = "\<lambda>i. 1000 + int i"
  let ?st = "\<lambda>e (w::nat) (clk::clock) (s::ExecutionCircuitBreakerBase). (Inr (e = Other 1) :: thrown + bool, s, clk)"
  let ?ri = "\<lambda>(s::ExecutionCircuitBreakerBase) (w::nat). Inr (Finite 5000) :: thrown + number"
  let ?bad = "\<lambda>(s::ExecutionCircuitBreakerBase) (w::nat). Inl (Error ''calc failed'') :: thrown + number"
  have proceed: "attemptToProceed (Inr ''Test'') ?clk ?s = (Inr (), ?clk)"
    by (simp add: attemptToProceed_def test_untripped)
  have date: "new_Date (plus_time 1000 (Finite 5000)) = Some 6000"
    using new_Date_whole [of 1000 5000] by simp
  have r1: "execute (Inr ''Test'') ?st ?ri (\<lambda>w::nat. (Some (Other 1), Suc w)) ?clk ?s 0 =
              (Inl (Other 1),
               \<lparr>isTripped = True, trippedAt = Some 1001, nextRetry = Some 6000, shouldRetry = Some True\<rparr>,
               Suc 0, \<lambda>i. 1000 + int (Suc (Suc i)))"
    using action_error_rethrown [where nm = "Inr ''Test''" and clk = ?clk and s = ?s and clka = ?clk
            and action = "\<lambda>w::nat. (Some (Other 1), Suc w)" and w = 0 and e = "Other 1"
            and w' = "Suc 0" and st = ?st and b = True and sa = ?s and clkb = ?clk
            and ri = ?ri] proceed
    by (simp add: Let_def execute_def run_action_def now_def trip_def date)
  have r2: "fst (execute (Inr ''Test'') ?st ?ri (\<lambda>w::nat. (Some (Other 2), Suc w)) ?clk ?s 0) =
              Inl (Other 2)"
    using action_error_rethrown [where nm = "Inr ''Test''" and clk = ?clk and s = ?s and clka = ?clk
            and action = "\<lambda>w::nat. (Some (Other 2), Suc w)" and w = 0 and e = "Other 2"
            and w' = "Suc 0" and st = ?st and b = False and sa = ?s and clkb = ?clk
            and ri = ?ri] proceed
    by (simp add: Let_def)
  have r3: "fst (execute (Inr ''Test'') ?st ?bad (\<lambda>w::nat. (Some (Other 1), Suc w)) ?clk ?s 0) =
              Inl (Error ''calc failed'')"
    using action_error_rethrown [where nm = "Inr ''Test''" and clk = ?clk and s = ?s and clka = ?clk
            and action = "\<lambda>w::nat. (Some (Other 1), Suc w)" and w = 0 and e = "Other 1"
            and w' = "Suc 0" and st = ?st and b = True and sa = ?s and clkb = ?clk
            and ri = ?bad] proceed
    by (simp add: Let_def)
  show ?thesis using proceed r1 r2 r3 by simp
qed

text \<open>
  C4 as the claim states it fails where \<open>shouldTrip\<close> returns true and the
  \<open>retryInterval\<close> getter throws: the caller gets the getter's error, not the action's, and
  the breaker is not tripped. And \<open>nextRetry\<close> is not always the reading plus the interval:
  with an interval of half a millisecond it is the reading itself, and with an interval of
  9e15 ms it is an Invalid Date.
\<close>

theorem retryInterval_error_replaces_action_error_counterexample:
  "new_ExecutionCircuitBreaker (Some ''db'') (Some (\<lambda>e. True))
       (Some (\<lambda>w::nat. Inl (Error ''calc failed''))) =
     Inr \<lparr>isTripped = False, trippedAt = None, nextRetry = Some year_one, shouldRetry = None,
          ecb_name = ''db'', ecb_failureDetector = \<lambda>e. True,
          ecb_retryIntervalCalculator = \<lambda>w. Inl (Error ''calc failed'')\<rparr>
   \<and> execute (Inr ''db'') ExecutionCircuitBreaker_shouldTrip ExecutionCircuitBreaker_retryInterval
       (\<lambda>w. (Some (Other 1), Suc w)) (\<lambda>i. 1000)
       \<lparr>isTripped = False, trippedAt = None, nextRetry = Some year_one, shouldRetry = None,
        ecb_name = ''db'', ecb_failureDetector = \<lambda>e. True,
        ecb_retryIntervalCalculator = \<lambda>w. Inl (Error ''calc failed'')\<rparr> 0 =
     (Inl (Error ''calc failed''),
      \<lparr>isTripped = False, trippedAt = None, nextRetry = Some year_one, shouldRetry = Some True,
       ecb_name = ''db'', ecb_failureDetector = \<lambda>e. True,
       ecb_retryIntervalCalculator = \<lambda>w. Inl (Error ''calc failed'')\<rparr>,
      Suc 0, \<lambda>i. 1000)
   \<and> Error ''calc failed'' \<noteq> Other 1
   \<and> execute (Inr ''db'') ExecutionCircuitBreaker_shouldTrip ExecutionCircuitBreaker_retryInterval
       (\<lambda>w. (Some (Other 1), Suc w)) (\<lambda>i. 1000)
       \<lparr>isTripped = False, trippedAt = None, nextRetry = Some year_one, shouldRetry = None,
        ecb_name = ''db'', ecb_failureDetector = \<lambda>e. True,
        ecb_retryIntervalCalculator = \<lambda>w. Inr (Finite 0.5)\<rparr> 0 =
     (Inl (Other 1),
      \<lparr>isTripped = True, trippedAt = Some 1000, nextRetry = Some 1000, shouldRetry = Some True,
       ecb_name = ''db'', ecb_failureDetector = \<lambda>e. True,
       ecb_retryIntervalCalculator = \<lambda>w. Inr (Finite 0.5)\<rparr>,
      Suc 0, \<lambda>i. 1000)
   \<and> execute (Inr ''db'') ExecutionCircuitBreaker_shouldTrip ExecutionCircuitBreaker_retryInterval
       (\<lambda>w. (Some (Other 1), Suc w)) (\<lambda>i. 1000)
       \<lparr>isTripped = False, trippedAt = None, nextRetry = Some year_one, shouldRetry = None,
        ecb_name = ''db'', ecb_failureDetector = \<lambda>e. True,
        ecb_retryIntervalCalculator = \<lambda>w. Inr (Finite 9000000000000000)\<rparr> 0 =
     (Inl (Other 1),
      \<lparr>isTripped = True, trippedAt = Some 1000, nextRetry = None, shouldRetry = Some True,
       ecb_name = ''db'', ecb_failureDetector = \<lambda>e. True,
       ecb_retryIntervalCalculator = \<lambda>w. Inr (Finite 9000000000000000)\<rparr>,
      Suc 0, \<lambda>i. 1000)"
  by (simp add: new_ExecutionCircuitBreaker_def execute_def attemptToProceed_def test_untripped
        run_action_def ExecutionCircuitBreaker_shouldTrip_def ExecutionCircuitBreaker_retryInterval_def
        now_def trip_def plus_time_def new_Date_def Let_def)

text \<open>
  C2, as the code has it. \<open>reset()\<close> puts \<open>nextRetry\<close> back to its initial value, year
  one, and leaves the breaker untripped (a tripped breaker loses its \<open>trippedAt\<close>); it does
  not touch \<open>_shouldRetry\<close>. After a call that was let through and whose action returned,
  the breaker is in that reset state with \<open>_shouldRetry\<close> true.
\<close>

theorem reset_restores_retry_time:
  fixes s :: "'a ExecutionCircuitBreakerBase_scheme"
  shows "(let s' = snd (reset s)
          in fst (reset s) = isTripped s
           \<and> nextRetry s' = Some year_one \<and> \<not> isTripped s'
           \<and> trippedAt s' = (if isTripped s then None else trippedAt s)
           \<and> shouldRetry s' = shouldRetry s)
       \<and> (attemptToProceed nm clk s = (Inr (), clka) \<and> action w = (None, w') \<longrightarrow>
            (let s' = fst (snd (execute nm st ri action clk s w))
             in fst (execute nm st ri action clk s w) = Inr ()
              \<and> s' = snd (reset (s\<lparr>shouldRetry := Some True\<rparr>))
              \<and> nextRetry s' = Some year_one \<and> \<not> isTripped s'
              \<and> trippedAt s' = (if isTripped s then None else trippedAt s)
              \<and> shouldRetry s' = Some True))"
  by (simp add: reset_eq execute_def run_action_def Let_def)

theorem reset_restores_retry_time_witness:
  "snd (reset \<lparr>isTripped = True, trippedAt = Some 1000, nextRetry = Some 6000, shouldRetry = Some True\<rparr>) =
     \<lparr>isTripped = False, trippedAt = None, nextRetry = Some year_one, shouldRetry = Some True\<rparr>
   \<and> attemptToProceed (Inr ''Test'') (\<lambda>i. 7000)
       \<lparr>isTripped = True, trippedAt = Some 1000, nextRetry = Some 6000, shouldRetry = Some True\<rparr> =
     (Inr (), \<lambda>i. 7000)
   \<and> fst (snd (execute (Inr ''Test'') (\<lambda>e w clk s. (Inr True, s, clk)) (\<lambda>s w. Inr (Finite 5000))
       (\<lambda>w::nat. (None, Suc w)) (\<lambda>i. 7000)
       \<lparr>isTripped = True, trippedAt = Some 1000, nextRetry = Some 6000, shouldRetry = Some True\<rparr> 0)) =
     \<lparr>isTripped = False, trippedAt = None, nextRetry = Some year_one, shouldRetry = Some True\<rparr>"
proof -
  let ?s = "\<lparr>isTripped = True, trippedAt = Some 1000, nextRetry = Some 6000, shouldRetry = Some True\<rparr>"
  have proceed: "attemptToProceed (Inr ''Test'') (\<lambda>i. 7000) ?s = (Inr (), \<lambda>i. 7000)"
    by (simp add: attemptToProceed_def test_tripped isTimeForRetry_def now_def)
  have act: "(\<lambda>w::nat. (None :: thrown option, Suc w)) 0 = (None, Suc 0)" by simp
  show ?thesis
    using proceed act
      reset_restores_retry_time [where s = ?s and nm = "Inr ''Test''" and clk = "\<lambda>i. 7000"
        and clka = "\<lambda>i. 7000" and action = "\<lambda>w::nat. (None, Suc w)" and w = 0 and w' = "Suc 0"
        and st = "\<lambda>e w clk s. (Inr True, s, clk)" and ri = "\<lambda>s w. Inr (Finite 5000)"]
    by (simp add: Let_def reset_eq)
qed

text \<open>
  C2 as the claim states it fails: a new breaker has \<open>_shouldRetry\<close> undefined; after one
  successful call, which ends in \<open>reset()\<close>, and after an explicit \<open>reset()\<close> as well, it
  is true, not its initial value and not false.
\<close>

theorem reset_keeps_attempt_flag_counterexample:
  "new_ExecutionCircuitBreaker (Some ''db'') (Some (\<lambda>e. True)) (Some (\<lambda>w::nat. Inr (Finite 5000))) =
     Inr \<lparr>isTripped = False, trippedAt = None, nextRetry = Some year_one, shouldRetry = None,
          ecb_name = ''db'', ecb_failureDetector = \<lambda>e. True, ecb_retryIntervalCalculator = \<lambda>w. Inr (Finite 5000)\<rparr>
   \<and> execute (Inr ''db'') ExecutionCircuitBreaker_shouldTrip ExecutionCircuitBreaker_retryInterval
       (\<lambda>w. (None, Suc w)) (\<lambda>i. 1000)
       \<lparr>isTripped = False, trippedAt = None, nextRetry = Some year_one, shouldRetry = None,
        ecb_name = ''db'', ecb_failureDetector = \<lambda>e. True, ecb_retryIntervalCalculator = \<lambda>w. Inr (Finite 5000)\<rparr> 0 =
     (Inr (),
      \<lparr>isTripped = False, trippedAt = None, nextRetry = Some year_one, shouldRetry = Some True,
       ecb_name = ''db'', ecb_failureDetector = \<lambda>e. True, ecb_retryIntervalCalculator = \<lambda>w. Inr (Finite 5000)\<rparr>,
      Suc 0, \<lambda>i. 1000)
   \<and> truthy (shouldRetry (snd (reset
       \<lparr>isTripped = False, trippedAt = None, nextRetry = Some year_one, shouldRetry = Some True,
        ecb_name = ''db'', ecb_failureDetector = \<lambda>e. True, ecb_retryIntervalCalculator = \<lambda>w::nat. Inr (Finite 5000)\<rparr>)))"
  by (simp add: new_ExecutionCircuitBreaker_def execute_def attemptToProceed_def test_untripped
        run_action_def reset_eq Let_def)

section \<open>The threshold strategy\<close>

text \<open>
  C5. \<open>shouldTrip(error)\<close> of the threshold breaker throws when \<open>error\<close> is undefined or
  null; returns false and changes nothing when the failure detector rejects the error;
  otherwise, if the clock reading is past \<open>_errorCountIntervalEnd\<close>, it first sets the
  count to 0 and the end of the window to the next reading plus the error interval, then
  increments the count and returns whether the count exceeds the error count getter's value.
  With a threshold of 1 and a window that starts at the first failure and outlasts the
  second, the first failure gives false and the second true.
\<close>

theorem shouldTrip_window:
  "ThresholdExecutionCircuitBreaker_shouldTrip error w clk s =
     (if error = Undefined \<or> error = Null then
        (Inl (Error ''error cannot be null or undefined.''), s, clk)
      else if \<not> failureDetector s error then (Inr False, s, clk)
      else (let expired = (clk 0 > errorCountIntervalEnd s);
                s1 = (if expired
                      then s\<lparr>errorCount := Count 0,
                             errorCountIntervalEnd := clk (Suc 0) + errorIntervalGetter s w\<rparr>
                      else s);
                s2 = s1\<lparr>errorCount := increment (errorCount s1)\<rparr>
            in (Inr (counter_gt (errorCount s2) (errorCountGetter s w)), s2,
                if expired then (\<lambda>i. clk (Suc (Suc i))) else (\<lambda>i. clk (Suc i)))))
   \<and> (error \<noteq> Undefined \<and> error \<noteq> Null \<and> failureDetector s error \<and> errorCountGetter s w = 1
        \<and> clk 0 > errorCountIntervalEnd s
        \<and> clk (Suc (Suc 0)) \<le> clk (Suc 0) + errorIntervalGetter s w \<longrightarrow>
      (let first = ThresholdExecutionCircuitBreaker_shouldTrip error w clk s;
           second = ThresholdExecutionCircuitBreaker_shouldTrip error w (snd (snd first)) (fst (snd first))
       in fst first = Inr False \<and> errorCount (fst (snd first)) = Count 1
        \<and> fst second = Inr True \<and> errorCount (fst (snd second)) = Count 2))"
  by (simp add: ThresholdExecutionCircuitBreaker_shouldTrip_def resetErrorCount_def now_def Let_def)

theorem shouldTrip_window_witness:
  "new_ThresholdExecutionCircuitBreaker (Some ''db'') (Some (\<lambda>e. True)) (Some (\<lambda>w::unit. Inr (Finite 5000)))
       (Some (\<lambda>w. 1)) (Some (\<lambda>w. 60000)) =
     Inr \<lparr>isTripped = False, trippedAt = None, nextRetry = Some year_one, shouldRetry = None,
          tecb_name = ''db'', failureDetector = \<lambda>e. True, retryIntervalCalculator = \<lambda>w. Inr (Finite 5000),
          errorCountGetter = \<lambda>w. 1, errorIntervalGetter = \<lambda>w. 60000,
          errorCountIntervalEnd = year_one, errorCount = Unset\<rparr>
   \<and> year_one < 1000
   \<and> ThresholdExecutionCircuitBreaker_shouldTrip (Error ''boom'') () (\<lambda>i. 1000)
       \<lparr>isTripped = False, trippedAt = None, nextRetry = Some year_one, shouldRetry = None,
        tecb_name = ''db'', failureDetector = \<lambda>e. True, retryIntervalCalculator = \<lambda>w. Inr (Finite 5000),
        errorCountGetter = \<lambda>w. 1, errorIntervalGetter = \<lambda>w. 60000,
        errorCountIntervalEnd = year_one, errorCount = Unset\<rparr> =
     (Inr False,
      \<lparr>isTripped = False, trippedAt = None, nextRetry = Some year_one, shouldRetry = None,
       tecb_name = ''db'', failureDetector = \<lambda>e. True, retryIntervalCalculator = \<lambda>w. Inr (Finite 5000),
       errorCountGetter = \<lambda>w. 1, errorIntervalGetter = \<lambda>w. 60000,
       errorCountIntervalEnd = 61000, errorCount = Count 1\<rparr>,
      \<lambda>i. 1000)
   \<and> fst (ThresholdExecutionCircuitBreaker_shouldTrip (Error ''boom'') () (\<lambda>i. 1000)
       \<lparr>isTripped = False, trippedAt = None, nextRetry = Some year_one, shouldRetry = None,
        tecb_name = ''db'', failureDetector = \<lambda>e. True, retryIntervalCalculator = \<lambda>w. Inr (Finite 5000),
        errorCountGetter = \<lambda>w. 1, errorIntervalGetter = \<lambda>w. 60000,
        errorCountIntervalEnd = 61000, errorCount = Count 1\<rparr>) = Inr True"
proof -
  let ?s = "\<lparr>isTripped = False, trippedAt = None, nextRetry = Some year_one, shouldRetry = None,
            tecb_name = ''db'', failureDetector = \<lambda>e. True, retryIntervalCalculator = \<lambda>w::unit. Inr (Finite 5000),
            errorCountGetter = \<lambda>w. 1, errorIntervalGetter = \<lambda>w. 60000,
            errorCountIntervalEnd = year_one, errorCount = Unset\<rparr>"
  let ?sa = "\<lparr>isTripped = False, trippedAt = None, nextRetry = Some year_one, shouldRetry = None,
            tecb_name = ''db'', failureDetector = \<lambda>e. True, retryIntervalCalculator = \<lambda>w::unit. Inr (Finite 5000),
            errorCountGetter = \<lambda>w. 1, errorIntervalGetter = \<lambda>w. 60000,
            errorCountIntervalEnd = 61000, errorCount = Count 1\<rparr>"
  note window = shouldTrip_window [where error = "Error ''boom''" and w = "()" and clk = "\<lambda>i. 1000"
                  and s = ?s]
  have new: "new_ThresholdExecutionCircuitBreaker (Some ''db'') (Some (\<lambda>e. True)) (Some (\<lambda>w::unit. Inr (Finite 5000)))
               (Some (\<lambda>w. 1)) (Some (\<lambda>w. 60000)) = Inr ?s"
    by (simp add: new_ThresholdExecutionCircuitBreaker_def)
  have clock: "year_one < 1000"
    by (simp add: year_one_def)
  have first: "ThresholdExecutionCircuitBreaker_shouldTrip (Error ''boom'') () (\<lambda>i. 1000) ?s =
                 (Inr False, ?sa, \<lambda>i. 1000)"
    using window [THEN conjunct1] clock by (simp add: Let_def)
  have "fst (ThresholdExecutionCircuitBreaker_shouldTrip (Error ''boom'') ()
               (snd (snd (ThresholdExecutionCircuitBreaker_shouldTrip (Error ''boom'') () (\<lambda>i. 1000) ?s)))
               (fst (snd (ThresholdExecutionCircuitBreaker_shouldTrip (Error ''boom'') () (\<lambda>i. 1000) ?s)))) =
          Inr True"
    using window [THEN conjunct2] clock by (simp add: Let_def)
  then have second: "fst (ThresholdExecutionCircuitBreaker_shouldTrip (Error ''boom'') () (\<lambda>i. 1000) ?sa) = Inr True"
    by (simp only: first fst_conv snd_conv)
  show ?thesis
    using new clock first second by simp
qed

section \<open>The decoupled policy\<close>

lemma tryToTripCircuitBreaker_counted:
  assumes "consecutiveFailures p = Count k"
  shows "tryToTripCircuitBreaker ctx clk p =
           (if k + 1 \<le> failuresAllowedBeforeTrip (config p)
            then (False, p\<lparr>consecutiveFailures := Count (k + 1)\<rparr>, clk)
            else (True,
                  p\<lparr>consecutiveFailures := Count (k + 1),
                    policy_nextRetry := clk 0 + retryInterval (config p),
                    circuitBreaker := fst (snd (trip (\<lambda>i. clk (Suc i)) (circuitBreaker p)))\<rparr>,
                  snd (snd (trip (\<lambda>i. clk (Suc i)) (circuitBreaker p)))))"
  using assms
  by (simp add: tryToTripCircuitBreaker_def Let_def now_def split: prod.splits)

lemma tryToTripCircuitBreaker_unset:
  assumes "consecutiveFailures p = Unset \<or> consecutiveFailures p = NaN"
  shows "tryToTripCircuitBreaker ctx clk p =
           (True,
            p\<lparr>consecutiveFailures := NaN,
              policy_nextRetry := clk 0 + retryInterval (config p),
              circuitBreaker := fst (snd (trip (\<lambda>i. clk (Suc i)) (circuitBreaker p)))\<rparr>,
            snd (snd (trip (\<lambda>i. clk (Suc i)) (circuitBreaker p))))"
  using assms
  by (auto simp add: tryToTripCircuitBreaker_def Let_def now_def split: prod.splits)

lemma fresh_policy_first_failure_trips:
  assumes "new_DefaultCircuitBreakerPolicy identifier cfg authority = Inr p"
      and "tripReasonAuthority p ctx e"
  shows "consecutiveFailures p = Unset"
    and "\<not> isTripped (circuitBreaker p)"
    and "isTripped (circuitBreaker (fst (notifyRequestFinished ctx e clk p w)))"
    and "consecutiveFailures (fst (notifyRequestFinished ctx e clk p w)) = NaN"
proof -
  show unset: "consecutiveFailures p = Unset" and "\<not> isTripped (circuitBreaker p)"
    using assms(1)
    by (auto simp add: new_DefaultCircuitBreakerPolicy_def new_CircuitBreaker_def split: if_splits)
  have tripped: "isTripped (fst (snd (trip c (circuitBreaker p))))" for c
    by (simp add: trip_def now_def)
  show "isTripped (circuitBreaker (fst (notifyRequestFinished ctx e clk p w)))"
    using assms(2) tripped
    by (simp add: notifyRequestFinished_def tryToTripCircuitBreaker_unset unset onNotified_def Let_def)
  show "consecutiveFailures (fst (notifyRequestFinished ctx e clk p w)) = NaN"
    using assms(2)
    by (simp add: notifyRequestFinished_def tryToTripCircuitBreaker_unset unset onNotified_def Let_def)
qed

lemma counted_policy_failure:
  assumes "tripReasonAuthority p ctx e"
      and "consecutiveFailures p = Count k"
      and "\<not> isTripped (circuitBreaker p)"
  shows "isTripped (circuitBreaker (fst (notifyRequestFinished ctx e clk p w))) =
           (k + 1 > failuresAllowedBeforeTrip (config p))"
    and "consecutiveFailures (fst (notifyRequestFinished ctx e clk p w)) = Count (k + 1)"
  using assms
  by (simp_all add: notifyRequestFinished_def tryToTripCircuitBreaker_counted onNotified_def
        Let_def trip_def now_def)

text \<open>
  C1, at the input where the code departs from it. A policy constructed with
  \<open>failuresAllowedBeforeTrip = 1\<close> has \<open>_consecutiveFailures\<close> undefined, not 0; the first
  qualifying failure makes it \<open>NaN\<close>, \<open>NaN <= 1\<close> is false, and the breaker trips at once:
  \<open>throwIfTripped\<close> then raises. (With a number in the counter, as after a successful
  notification, \<open>tryToTripCircuitBreaker\<close> behaves as the claim says:
  \<open>tryToTripCircuitBreaker_counted\<close>, \<open>counted_policy_failure\<close>.)
\<close>

theorem fresh_policy_trips_on_first_failure:
  "(new_DefaultCircuitBreakerPolicy (Some ''db'')
       (Some \<lparr>retryInterval = 250, failuresAllowedBeforeTrip = 1\<rparr>)
       (Some (\<lambda>(c::unit) e. e = Error ''boom'')) :: thrown + (unit, unit) DefaultCircuitBreakerPolicy) =
     Inr \<lparr>tripReasonAuthority = \<lambda>c e. e = Error ''boom'', onTerminatingRequest = None,
          onRequestToOpen = None,
          circuitBreaker = \<lparr>isTripped = False, trippedAt = None, cb_name = ''db''\<rparr>,
          policy_shouldRetry = None, consecutiveFailures = Unset, policy_nextRetry = year_one,
          config = \<lparr>retryInterval = 250, failuresAllowedBeforeTrip = 1\<rparr>\<rparr>
   \<and> notifyRequestFinished () (Error ''boom'') (\<lambda>i. 1000)
       \<lparr>tripReasonAuthority = \<lambda>c e. e = Error ''boom'', onTerminatingRequest = None,
        onRequestToOpen = None,
        circuitBreaker = \<lparr>isTripped = False, trippedAt = None, cb_name = ''db''\<rparr>,
        policy_shouldRetry = None, consecutiveFailures = Unset, policy_nextRetry = year_one,
        config = \<lparr>retryInterval = 250, failuresAllowedBeforeTrip = 1\<rparr>\<rparr> () =
     (\<lparr>tripReasonAuthority = \<lambda>c e. e = Error ''boom'', onTerminatingRequest = None,
       onRequestToOpen = None,
       circuitBreaker = \<lparr>isTripped = True, trippedAt = Some 1000, cb_name = ''db''\<rparr>,
       policy_shouldRetry = Some False, consecutiveFailures = NaN, policy_nextRetry = 1250,
       config = \<lparr>retryInterval = 250, failuresAllowedBeforeTrip = 1\<rparr>\<rparr>, (), \<lambda>i. 1000)
   \<and> fst (throwIfTripped () (\<lambda>i. 1100)
       \<lparr>tripReasonAuthority = \<lambda>c e. e = Error ''boom'', onTerminatingRequest = None,
        onRequestToOpen = None,
        circuitBreaker = \<lparr>isTripped = True, trippedAt = Some 1000, cb_name = ''db''\<rparr>,
        policy_shouldRetry = Some False, consecutiveFailures = NaN, policy_nextRetry = 1250,
        config = \<lparr>retryInterval = 250, failuresAllowedBeforeTrip = 1\<rparr>\<rparr> ()) =
     Inl (CircuitBreakerError ([CHR 0x27] @ ''db'' @ [CHR 0x27] @ '' has been tripped for 0.1 seconds.''))"
  by (simp add: new_DefaultCircuitBreakerPolicy_def new_CircuitBreaker_def notifyRequestFinished_def
        invoke_def tryToTripCircuitBreaker_def onNotified_def trip_def now_def Let_def
        throwIfTripped_def isCircuitBreakerOpen_def getTripError_def trip_message_def seconds_text_100)

text \<open>
  C9. \<open>throwIfTripped\<close> returns normally exactly when the internal breaker is untripped,
  or is tripped while the reading of \<open>Date.now()\<close> is at or after \<open>_nextRetry\<close> and
  \<open>_shouldRetry\<close> is not true. Otherwise it invokes \<open>onTerminatingRequest\<close>, if one is
  registered, and raises the error \<open>getTripError()\<close> gave.
\<close>

theorem throwIfTripped_cases:
  "(let cb = circuitBreaker p;
        err = CircuitBreakerError (trip_message (cb_name cb)
                (clk (Suc 0) - (case trippedAt cb of Some t \<Rightarrow> t | None \<Rightarrow> clk (Suc 0))))
    in throwIfTripped ctx clk p w =
         (if \<not> isTripped cb then (Inr (), w, clk)
          else if policy_nextRetry p \<le> clk 0 \<and> \<not> truthy (policy_shouldRetry p)
          then (Inr (), w, \<lambda>i. clk (Suc i))
          else (Inl err, (case onTerminatingRequest p of None \<Rightarrow> w | Some f \<Rightarrow> f w),
                \<lambda>i. clk (Suc (Suc i))))
     \<and> fst (getTripError (Inr (cb_name cb)) (\<lambda>i. clk (Suc i)) cb) = Inr err
     \<and> (fst (throwIfTripped ctx clk p w) = Inr ()) =
         (\<not> isTripped cb \<or> isTripped cb \<and> clk 0 \<ge> policy_nextRetry p \<and> \<not> truthy (policy_shouldRetry p)))"
  by (simp add: throwIfTripped_def isCircuitBreakerOpen_def getTripError_def now_def Let_def invoke_def)

theorem throwIfTripped_cases_witness:
  "throwIfTripped () (\<lambda>i. 1100)
       \<lparr>tripReasonAuthority = \<lambda>c e. e = Error ''boom'', onTerminatingRequest = Some Suc,
        onRequestToOpen = None,
        circuitBreaker = \<lparr>isTripped = True, trippedAt = Some 1000, cb_name = ''db''\<rparr>,
        policy_shouldRetry = Some False, consecutiveFailures = Count 1, policy_nextRetry = 1250,
        config = \<lparr>retryInterval = 250, failuresAllowedBeforeTrip = 0\<rparr>\<rparr> 0 =
     (Inl (CircuitBreakerError ([CHR 0x27] @ ''db'' @ [CHR 0x27] @ '' has been tripped for 0.1 seconds.'')),
      Suc 0, \<lambda>i. 1100)
   \<and> throwIfTripped () (\<lambda>i. 1300)
       \<lparr>tripReasonAuthority = \<lambda>c e. e = Error ''boom'', onTerminatingRequest = Some Suc,
        onRequestToOpen = None,
        circuitBreaker = \<lparr>isTripped = True, trippedAt = Some 1000, cb_name = ''db''\<rparr>,
        policy_shouldRetry = Some False, consecutiveFailures = Count 1, policy_nextRetry = 1250,
        config = \<lparr>retryInterval = 250, failuresAllowedBeforeTrip = 0\<rparr>\<rparr> 0 =
     (Inr (), 0, \<lambda>i. 1300)"
  using throwIfTripped_cases [where ctx = "()" and clk = "\<lambda>i. 1100" and w = "0::nat"
          and p = "\<lparr>tripReasonAuthority = \<lambda>c e. e = Error ''boom'', onTerminatingRequest = Some Suc,
            onRequestToOpen = None,
            circuitBreaker = \<lparr>isTripped = True, trippedAt = Some 1000, cb_name = ''db''\<rparr>,
            policy_shouldRetry = Some False, consecutiveFailures = Count 1, policy_nextRetry = 1250,
            config = \<lparr>retryInterval = 250, failuresAllowedBeforeTrip = 0\<rparr>\<rparr>"]
        throwIfTripped_cases [where ctx = "()" and clk = "\<lambda>i. 1300" and w = "0::nat"
          and p = "\<lparr>tripReasonAuthority = \<lambda>c e. e = Error ''boom'', onTerminatingRequest = Some Suc,
            onRequestToOpen = None,
            circuitBreaker = \<lparr>isTripped = True, trippedAt = Some 1000, cb_name = ''db''\<rparr>,
            policy_shouldRetry = Some False, consecutiveFailures = Count 1, policy_nextRetry = 1250,
            config = \<lparr>retryInterval = 250, failuresAllowedBeforeTrip = 0\<rparr>\<rparr>"]
  by (simp add: Let_def trip_message_def seconds_text_100)

section \<open>The backoff calculator\<close>

text \<open>
  C6. With \<open>maxAttempts\<close> in [0, 10], \<open>calculateBackoff\<close> clamps \<open>attempt\<close> to
  \<open>maxAttempts\<close>, takes the delay \<open>min(baseDelay * 2^(attempt - 1), maxDelay)\<close>, draws one
  random value \<open>r\<close>, and returns the delay for jitter None, the delay times \<open>r\<close> for Full,
  and the delay times \<open>0.5 + 0.5 r\<close> for Equal. With \<open>baseDelay = 100\<close>,
  \<open>maxDelay = 1000\<close>, \<open>attempt = maxAttempts = 5\<close>, Full jitter and \<open>r = 0.5\<close> the
  result is 500.
\<close>

theorem calculateBackoff_value:
  assumes "0 \<le> maxAttempts" and "maxAttempts \<le> 10"
  shows "calculateBackoff attempt maxAttempts baseDelay maxDelay jitter rnd =
           (let delay = min (baseDelay * 2 powr (min attempt maxAttempts - 1)) maxDelay;
                r = rnd 0
            in (Inr (case jitter of
                       Jitter_None \<Rightarrow> delay
                     | Jitter_Full \<Rightarrow> delay * r
                     | Jitter_Equal \<Rightarrow> delay * (0.5 + 0.5 * r)),
                \<lambda>i. rnd (Suc i)))
       \<and> fst (calculateBackoff 5 5 100 1000 Jitter_Full (\<lambda>i. 0.5)) = Inr 500"
  using assms
  by (cases jitter)
     (simp_all add: calculateBackoff_def ceilingForMaxAttempts_def random_def Let_def min_def)

theorem calculateBackoff_value_witness:
  "(0::real) \<le> 5 \<and> (5::real) \<le> 10
   \<and> calculateBackoff 5 5 100 1000 Jitter_Full (\<lambda>i. 0.5) = (Inr 500, \<lambda>i. 0.5)
   \<and> calculateBackoff 7 3 100 1000 Jitter_Equal (\<lambda>i. 0.5) = (Inr 300, \<lambda>i. 0.5)
   \<and> calculateBackoff 1 10 100 1000 Jitter_None (\<lambda>i. 0.25) = (Inr 100, \<lambda>i. 0.25)"
  using calculateBackoff_value [of 5 5 100 1000 Jitter_Full "\<lambda>i. 0.5"]
        calculateBackoff_value [of 3 7 100 1000 Jitter_Equal "\<lambda>i. 0.5"]
        calculateBackoff_value [of 10 1 100 1000 Jitter_None "\<lambda>i. 0.25"]
  by (simp add: Let_def)

text \<open>
  C7. \<open>calculateBackoff\<close> throws its range error exactly when \<open>maxAttempts < 0\<close> or
  \<open>maxAttempts > 10\<close>, whatever the other arguments are; so it does for \<open>-1\<close> and for
  \<open>11\<close>. It then has drawn no random value.
\<close>

theorem calculateBackoff_out_of_range:
  "(fst (calculateBackoff attempt maxAttempts baseDelay maxDelay jitter rnd) =
      Inl (Error ''The max attempts must be between 0 and 10.'')) =
     (maxAttempts < 0 \<or> maxAttempts > 10)
   \<and> isl (fst (calculateBackoff attempt maxAttempts baseDelay maxDelay jitter rnd)) =
       (maxAttempts < 0 \<or> maxAttempts > 10)
   \<and> calculateBackoff attempt (- 1) baseDelay maxDelay jitter rnd =
       (Inl (Error ''The max attempts must be between 0 and 10.''), rnd)
   \<and> calculateBackoff attempt 11 baseDelay maxDelay jitter rnd =
       (Inl (Error ''The max attempts must be between 0 and 10.''), rnd)"
  by (cases jitter)
     (simp_all add: calculateBackoff_def ceilingForMaxAttempts_def random_def Let_def)

theorem calculateBackoff_out_of_range_witness:
  "fst (calculateBackoff 3 (- 1) 100 1000 Jitter_Full (\<lambda>i. 0.5)) =
     Inl (Error ''The max attempts must be between 0 and 10.'')
   \<and> fst (calculateBackoff 3 11 100 1000 Jitter_None (\<lambda>i. 0.5)) =
     Inl (Error ''The max attempts must be between 0 and 10.'')
   \<and> fst (calculateBackoff 3 10.5 100 1000 Jitter_None (\<lambda>i. 0.5)) =
     Inl (Error ''The max attempts must be between 0 and 10.'')
   \<and> isl (fst (calculateBackoff 3 10 100 1000 Jitter_None (\<lambda>i. 0.5))) = False
   \<and> isl (fst (calculateBackoff 3 0 100 1000 Jitter_Equal (\<lambda>i. 0.5))) = False"
  using calculateBackoff_out_of_range [of 3 "- 1" 100 1000 Jitter_Full "\<lambda>i. 0.5"]
        calculateBackoff_out_of_range [of 3 11 100 1000 Jitter_None "\<lambda>i. 0.5"]
        calculateBackoff_out_of_range [of 3 "10.5" 100 1000 Jitter_None "\<lambda>i. 0.5"]
        calculateBackoff_out_of_range [of 3 10 100 1000 Jitter_None "\<lambda>i. 0.5"]
        calculateBackoff_out_of_range [of 3 0 100 1000 Jitter_Equal "\<lambda>i. 0.5"]
  by simp

end
